theory Spec2Isabelle
  imports Complex_Main
begin

section \<open>JavaScript numbers\<close>

text \<open>
  The pixel ratio is a JavaScript number, an IEEE 754 double: a finite value, one of the two
  infinities, or NaN. A finite double is represented by the real number it denotes. The
  applier compares, clamps and subtracts such values; every comparison with NaN is false,
  and the result of an arithmetic operation is the exact result rounded to the nearest
  double, ties to even. A decimal literal of the source denotes the double nearest to it.
\<close>

datatype jsnum = NaN | NegInf | Fin real | PosInf

definition pow2 :: "int \<Rightarrow> real" where
  "pow2 e = (if 0 \<le> e then 2 ^ nat e else 1 / 2 ^ nat (- e))"

text \<open>Rounding to the nearest integer, a tie going to the even one; \<open>n\<close> is the floor of \<open>y\<close>.\<close>

definition nearest_even :: "int \<Rightarrow> real \<Rightarrow> int" where
  "nearest_even n y =
     (if y - of_int n < 1 / 2 then n
      else if 1 / 2 < y - of_int n then n + 1
      else if even n then n else n + 1)"

definition round_half_even :: "real \<Rightarrow> int" where
  "round_half_even y = nearest_even \<lfloor>y\<rfloor> y"

text \<open>
  The binary exponent of a positive \<open>x\<close>: the \<open>e\<close> with \<open>2 ^ e \<le> x < 2 ^ (e + 1)\<close>, but
  not below \<open>-1022\<close>, where the subnormal numbers begin. The search is bounded; the bound
  exceeds the exponent range of the doubles.
\<close>

fun binade :: "nat \<Rightarrow> real \<Rightarrow> int \<Rightarrow> int" where
  "binade 0 x e = e"
| "binade (Suc fuel) x e =
     (if 2 \<le> x then binade fuel (x / 2) (e + 1)
      else if x < 1 \<and> - 1022 < e then binade fuel (x * 2) (e - 1)
      else e)"

text \<open>
  Rounding of a real to the nearest double: to a multiple of \<open>2 ^ (e - 52)\<close> in the binade
  \<open>e\<close> of the value, and to an infinity when the rounded magnitude reaches \<open>2 ^ 1024\<close>,
  which can only happen from the binade 1023 on.
\<close>

definition round_to_multiple :: "real \<Rightarrow> real \<Rightarrow> real" where
  "round_to_multiple ulp x = of_int (round_half_even (x / ulp)) * ulp"

definition finite_or_infinite :: "int \<Rightarrow> real \<Rightarrow> real \<Rightarrow> jsnum" where
  "finite_or_infinite e x y =
     (if e < 1023 then Fin y
      else if pow2 1024 \<le> \<bar>y\<bar> then (if 0 < x then PosInf else NegInf)
      else Fin y)"

definition round_in_binade :: "int \<Rightarrow> real \<Rightarrow> jsnum" where
  "round_in_binade e x = finite_or_infinite e x (round_to_multiple (pow2 (e - 52)) x)"

definition js_round :: "real \<Rightarrow> jsnum" where
  "js_round x = round_in_binade (binade 2200 \<bar>x\<bar> 0) x"

text \<open>The double a decimal literal denotes.\<close>

definition js_lit :: "real \<Rightarrow> jsnum" where
  "js_lit q = js_round q"

fun js_lt :: "jsnum \<Rightarrow> jsnum \<Rightarrow> bool" where
  "js_lt NaN _ = False"
| "js_lt _ NaN = False"
| "js_lt (Fin a) (Fin b) = (a < b)"
| "js_lt NegInf NegInf = False"
| "js_lt NegInf _ = True"
| "js_lt _ NegInf = False"
| "js_lt PosInf _ = False"
| "js_lt _ PosInf = True"

definition js_gt :: "jsnum \<Rightarrow> jsnum \<Rightarrow> bool" where
  "js_gt a b = js_lt b a"

fun Math_min :: "jsnum \<Rightarrow> jsnum \<Rightarrow> jsnum" where
  "Math_min NaN _ = NaN"
| "Math_min _ NaN = NaN"
| "Math_min a b = (if js_lt b a then b else a)"

fun Math_max :: "jsnum \<Rightarrow> jsnum \<Rightarrow> jsnum" where
  "Math_max NaN _ = NaN"
| "Math_max _ NaN = NaN"
| "Math_max a b = (if js_lt a b then b else a)"

fun Math_abs :: "jsnum \<Rightarrow> jsnum" where
  "Math_abs NaN = NaN"
| "Math_abs NegInf = PosInf"
| "Math_abs PosInf = PosInf"
| "Math_abs (Fin a) = Fin \<bar>a\<bar>"

fun js_sub :: "jsnum \<Rightarrow> jsnum \<Rightarrow> jsnum" where
  "js_sub NaN _ = NaN"
| "js_sub _ NaN = NaN"
| "js_sub (Fin a) (Fin b) = js_round (a - b)"
| "js_sub PosInf PosInf = NaN"
| "js_sub NegInf NegInf = NaN"
| "js_sub PosInf _ = PosInf"
| "js_sub NegInf _ = NegInf"
| "js_sub _ PosInf = NegInf"
| "js_sub _ NegInf = PosInf"

text \<open>\<open>1.0 / x\<close>, as the applier computes the hardware scaling level.\<close>

fun js_recip :: "jsnum \<Rightarrow> jsnum" where
  "js_recip NaN = NaN"
| "js_recip NegInf = Fin 0"
| "js_recip PosInf = Fin 0"
| "js_recip (Fin a) = (if a = 0 then PosInf else js_round (1 / a))"

text \<open>
  A value passed where a number is expected: a number, or \<open>undefined\<close>. \<open>typeof\<close> tells
  them apart, and where arithmetic is applied to \<open>undefined\<close> it is converted to NaN.
\<close>

datatype jsval = Undefined | Number jsnum

fun isNumber :: "jsval \<Rightarrow> bool" where
  "isNumber Undefined = False"
| "isNumber (Number n) = True"

fun ToNumber :: "jsval \<Rightarrow> jsnum" where
  "ToNumber Undefined = NaN"
| "ToNumber (Number n) = n"

section \<open>Data model\<close>

record vec3 =
  vx :: real
  vy :: real
  vz :: real

record quat =
  qx :: real
  qy :: real
  qz :: real
  qw :: real

definition DistanceSquared :: "vec3 \<Rightarrow> vec3 \<Rightarrow> real" where
  "DistanceSquared a b =
     (vx a - vx b) * (vx a - vx b) + (vy a - vy b) * (vy a - vy b) + (vz a - vz b) * (vz a - vz b)"

definition Dot :: "quat \<Rightarrow> quat \<Rightarrow> real" where
  "Dot a b = qx a * qx b + qy a * qy b + qz a * qz b + qw a * qw b"

text \<open>
  The camera of the rendering engine, a \<open>FreeCamera\<close>. \<open>eulerQuaternion\<close> is the value the
  engine's \<open>Quaternion.FromEulerVector(camera.rotation)\<close> returns; that conversion is
  library code and is taken as given. On a camera \<open>isDisposed\<close> is a method;
  \<open>cam_disposed\<close> is what a call of it would return. The positions and rotations of the
  camera and the engine's operations on them are taken over the reals.
\<close>

record camera_obj =
  position :: vec3
  rotationQuaternion :: "quat option"
  eulerQuaternion :: quat
  cam_disposed :: bool

record engine_obj =
  isDisposed :: bool
  hardwareScalingLevel :: jsnum

text \<open>
  The state the resolution controller reads and writes. The first group are the top-level
  \<open>let\<close> variables of manual-lod.js, the second the globals of main.js, the third the
  properties of \<open>window\<close>, the last the host: the visibility of the document and the
  queue of scheduled timeouts. \<open>window.engine\<close> is assigned the engine at start-up and
  is read as the same object as \<open>engine\<close>. Timer handles are positive integers, so a
  stored handle is always truthy. \<open>window.isConsideredMoving\<close> is a property of its own:
  a top-level \<open>let\<close> of a script does not create a property of \<open>window\<close>.
\<close>

record world =
  isDynamicResolutionActive :: bool
  currentPixelRatioPreset :: "string option"
  drsFrameCounter :: nat
  dynamicHighPixelRatio :: jsnum
  dynamicLowPixelRatio :: jsnum
  movementTimeoutId :: "nat option"
  lastCameraPosition :: "vec3 option"
  lastCameraRotationQ :: "quat option"
  isConsideredMoving :: bool
  camera :: "camera_obj option"
  scene :: bool
  engine :: "engine_obj option"
  window_currentPixelRatio :: jsnum
  window_joystickActive :: bool
  window_joystickVisible :: bool
  window_joystickVector :: "(real \<times> real) option"
  window_isConsideredMoving :: "bool option"
  document_hidden :: bool
  pendingTimers :: "nat list"
  nextTimerId :: nat

text \<open>
  The lookup \<open>PIXEL_RATIO_PRESETS[presetName]\<close>. The table is an object literal, so besides
  its four own keys the lookup finds the members every object inherits; these are truthy
  and have no \<open>pixelRatio\<close>. Any other name gives \<open>undefined\<close>, here \<open>None\<close>.
\<close>

datatype preset_member = Preset jsnum | Inherited

definition objectPrototypeKeys :: "string list" where
  "objectPrototypeKeys =
     [''constructor'', ''hasOwnProperty'', ''isPrototypeOf'', ''propertyIsEnumerable'',
      ''toLocaleString'', ''toString'', ''valueOf'', ''__proto__'', ''__defineGetter__'',
      ''__defineSetter__'', ''__lookupGetter__'', ''__lookupSetter__'']"

definition PIXEL_RATIO_PRESETS :: "string \<Rightarrow> preset_member option" where
  "PIXEL_RATIO_PRESETS name =
     (if name = ''FULL'' then Some (Preset (js_lit 1.0))
      else if name = ''HIGH'' then Some (Preset (js_lit 0.75))
      else if name = ''MEDIUM'' then Some (Preset (js_lit 0.5))
      else if name = ''LOW'' then Some (Preset (js_lit 0.35))
      else if name \<in> set objectPrototypeKeys then Some Inherited
      else None)"

fun pixelRatio :: "preset_member \<Rightarrow> jsval" where
  "pixelRatio (Preset r) = Number r"
| "pixelRatio Inherited = Undefined"

definition DRS_CHECK_INTERVAL :: nat where
  "DRS_CHECK_INTERVAL = 5"

definition movementDetectionThresholdPosSq :: real where
  "movementDetectionThresholdPosSq = 0.0005"

definition movementDetectionThresholdRotDot :: real where
  "movementDetectionThresholdRotDot = 0.99995"

definition joystickMovementThreshold :: real where
  "joystickMovementThreshold = 0.1"

section \<open>The pixel ratio applier (ui.js)\<close>

text \<open>
  \<open>setPixelRatio\<close> clamps an argument that is not a number or lies outside [0.1, 1.5],
  returns without a change when \<open>Math.abs(window.currentPixelRatio - ratio) < 0.01\<close>, and
  otherwise stores the ratio and pushes the scaling level to the engine. The calls that
  refresh the settings buttons and the performance indicator only touch the page and are
  not part of the state.
\<close>

definition setPixelRatio :: "jsval \<Rightarrow> world \<Rightarrow> world" where
  "setPixelRatio ratio0 s =
     (let minRatio = js_lit 0.1;
          maxRatio = js_lit 1.5;
          ratio = (if \<not> isNumber ratio0 \<or> js_lt (ToNumber ratio0) minRatio
                      \<or> js_gt (ToNumber ratio0) maxRatio
                   then Math_max minRatio (Math_min maxRatio (ToNumber ratio0))
                   else ToNumber ratio0)
      in if js_lt (Math_abs (js_sub (window_currentPixelRatio s) ratio)) (js_lit 0.01) then s
         else (let s1 = s\<lparr>window_currentPixelRatio := ratio\<rparr>
               in case engine s1 of
                    None \<Rightarrow> s1
                  | Some e \<Rightarrow> s1\<lparr>engine := Some (e\<lparr>hardwareScalingLevel := js_recip ratio\<rparr>)\<rparr>))"

section \<open>Timers of the host\<close>

definition clearTimeout :: "nat option \<Rightarrow> world \<Rightarrow> world" where
  "clearTimeout h s =
     (case h of
        None \<Rightarrow> s
      | Some t \<Rightarrow> s\<lparr>pendingTimers := filter (\<lambda>u. u \<noteq> t) (pendingTimers s)\<rparr>)"

definition setTimeout :: "world \<Rightarrow> nat \<times> world" where
  "setTimeout s =
     (nextTimerId s,
      s\<lparr>pendingTimers := pendingTimers s @ [nextTimerId s], nextTimerId := Suc (nextTimerId s)\<rparr>)"

section \<open>The resolution controller (manual-lod.js)\<close>

definition engineGone :: "world \<Rightarrow> bool" where
  "engineGone s = (case engine s of None \<Rightarrow> True | Some e \<Rightarrow> isDisposed e)"

definition applyDynamicResolution :: "jsnum \<Rightarrow> world \<Rightarrow> world" where
  "applyDynamicResolution targetRatio s = setPixelRatio (Number targetRatio) s"

text \<open>
  \<open>deactivateDynamicResolution\<close> as the source has it: after the guard on the mode, the
  engine and the document, it increments the frame counter and returns unless the counter
  is a multiple of \<open>DRS_CHECK_INTERVAL\<close>; only then does it leave Dynamic mode and clear
  the timer.
\<close>

definition deactivateDynamicResolution :: "world \<Rightarrow> world" where
  "deactivateDynamicResolution s =
     (if \<not> isDynamicResolutionActive s \<or> engineGone s \<or> document_hidden s then s
      else (let s1 = s\<lparr>drsFrameCounter := drsFrameCounter s + 1\<rparr>
            in if drsFrameCounter s1 mod DRS_CHECK_INTERVAL \<noteq> 0 then s1
               else (clearTimeout (movementTimeoutId s1) (s1\<lparr>isDynamicResolutionActive := False\<rparr>))
                      \<lparr>movementTimeoutId := None, isConsideredMoving := False\<rparr>))"

definition applyPixelRatioPreset :: "string \<Rightarrow> world \<Rightarrow> world" where
  "applyPixelRatioPreset presetName s =
     (case PIXEL_RATIO_PRESETS presetName of
        None \<Rightarrow> s
      | Some preset \<Rightarrow>
          setPixelRatio (pixelRatio preset)
            ((deactivateDynamicResolution s)\<lparr>currentPixelRatioPreset := Some presetName\<rparr>))"

text \<open>The camera with its rotation quaternion created from the Euler angles when absent.\<close>

definition ensureQuaternion :: "camera_obj \<Rightarrow> camera_obj" where
  "ensureQuaternion cam =
     (case rotationQuaternion cam of
        None \<Rightarrow> cam\<lparr>rotationQuaternion := Some (eulerQuaternion cam)\<rparr>
      | Some q \<Rightarrow> cam)"

definition cameraQuaternion :: "camera_obj \<Rightarrow> quat" where
  "cameraQuaternion cam =
     (case rotationQuaternion cam of None \<Rightarrow> eulerQuaternion cam | Some q \<Rightarrow> q)"

text \<open>
  The comparison in \<open>hasCameraMoved\<close>: the position check, the rotation check and the
  joystick test against the snapshot \<open>(lastPos, lastRot)\<close>; \<open>cam\<close> has its quaternion.
\<close>

definition movedSinceSnapshot :: "camera_obj \<Rightarrow> vec3 \<Rightarrow> quat \<Rightarrow> world \<Rightarrow> bool" where
  "movedSinceSnapshot cam lastPos lastRot s =
     (let posChangeSq = DistanceSquared (position cam) lastPos;
          posChanged = (posChangeSq > movementDetectionThresholdPosSq);
          rotDot = \<bar>Dot (cameraQuaternion cam) lastRot\<bar>;
          rotChanged = (rotDot < movementDetectionThresholdRotDot);
          joyX = (case window_joystickVector s of None \<Rightarrow> 0 | Some v \<Rightarrow> fst v);
          joyY = (case window_joystickVector s of None \<Rightarrow> 0 | Some v \<Rightarrow> snd v);
          joystickMoving = (window_joystickActive s \<and> window_joystickVisible s \<and>
                            (\<bar>joyX\<bar> > joystickMovementThreshold \<or> \<bar>joyY\<bar> > joystickMovementThreshold))
      in posChanged \<or> rotChanged \<or> joystickMoving)"

text \<open>
  The second half of \<open>hasCameraMoved\<close>, from the position check on: the comparison, and the
  refresh of the snapshot, which happens only on a call that is not forced.
\<close>

definition hasCameraMoved_compare ::
  "bool \<Rightarrow> camera_obj \<Rightarrow> vec3 \<Rightarrow> quat \<Rightarrow> world \<Rightarrow> bool \<times> world" where
  "hasCameraMoved_compare forceCheck cam lastPos lastRot s =
     (let cam1 = ensureQuaternion cam;
          s1 = s\<lparr>camera := Some cam1\<rparr>;
          moved = movedSinceSnapshot cam1 lastPos lastRot s
      in if \<not> forceCheck
         then (if isDynamicResolutionActive s \<or> moved
               then (moved, s1\<lparr>lastCameraPosition := Some (position cam1),
                                 lastCameraRotationQ := Some (cameraQuaternion cam1)\<rparr>)
               else (moved, s1))
         else (moved, s1))"

definition hasCameraMoved :: "bool \<Rightarrow> world \<Rightarrow> bool \<times> world" where
  "hasCameraMoved forceCheck s =
     (case camera s of
        None \<Rightarrow> (False, s)
      | Some cam \<Rightarrow>
          if engineGone s then (False, s)
          else (case (lastCameraPosition s, lastCameraRotationQ s) of
                  (Some lastPos, Some lastRot) \<Rightarrow> hasCameraMoved_compare forceCheck cam lastPos lastRot s
                | _ \<Rightarrow>
                    (let cam1 = ensureQuaternion cam;
                         s1 = s\<lparr>camera := Some cam1,
                                lastCameraPosition := Some (position cam1),
                                lastCameraRotationQ := Some (cameraQuaternion cam1)\<rparr>
                     in if \<not> forceCheck then (False, s1)
                        else hasCameraMoved_compare forceCheck cam1 (position cam1)
                               (cameraQuaternion cam1) s1)))"

definition activateDynamicResolution :: "world \<Rightarrow> world" where
  "activateDynamicResolution s =
     (if isDynamicResolutionActive s then s
      else (let s1 = s\<lparr>isDynamicResolutionActive := True, currentPixelRatioPreset := None\<rparr>;
                (currentlyMoving, s2) = hasCameraMoved True s1;
                s3 = s2\<lparr>isConsideredMoving := currentlyMoving\<rparr>
            in if currentlyMoving then applyDynamicResolution (dynamicLowPixelRatio s3) s3
               else (let s4 = applyDynamicResolution (dynamicHighPixelRatio s3) s3
                     in (clearTimeout (movementTimeoutId s4) s4)\<lparr>movementTimeoutId := None\<rparr>)))"

text \<open>The callback given to \<open>setTimeout\<close> in \<open>updateDynamicResolutionLogic\<close>.\<close>

definition movementTimeoutCallback :: "world \<Rightarrow> world" where
  "movementTimeoutCallback s =
     (if isDynamicResolutionActive s
      then (applyDynamicResolution (dynamicHighPixelRatio s) s)
             \<lparr>isConsideredMoving := False, movementTimeoutId := None\<rparr>
      else s\<lparr>isConsideredMoving := False, movementTimeoutId := None\<rparr>)"

text \<open>The host fires a scheduled timeout: it leaves the queue and its callback runs.\<close>

definition fireTimer :: "nat \<Rightarrow> world \<Rightarrow> world" where
  "fireTimer t s =
     (if t \<in> set (pendingTimers s)
      then movementTimeoutCallback (s\<lparr>pendingTimers := filter (\<lambda>u. u \<noteq> t) (pendingTimers s)\<rparr>)
      else s)"

definition updateDynamicResolutionLogic :: "world \<Rightarrow> world" where
  "updateDynamicResolutionLogic s =
     (if \<not> isDynamicResolutionActive s \<or> engineGone s \<or> \<not> scene s \<or> camera s = None
         \<or> document_hidden s
      then (if \<not> isDynamicResolutionActive s \<and> movementTimeoutId s \<noteq> None
            then (clearTimeout (movementTimeoutId s) s)\<lparr>movementTimeoutId := None\<rparr>
            else s)
      else (let (movedThisFrame, s1) = hasCameraMoved False s
            in if movedThisFrame
               then (let s2 = s1\<lparr>isConsideredMoving := True\<rparr>;
                         s3 = (if js_gt (Math_abs (js_sub (window_currentPixelRatio s2)
                                                     (dynamicLowPixelRatio s2))) (js_lit 0.01)
                               then applyDynamicResolution (dynamicLowPixelRatio s2) s2
                               else s2)
                     in if movementTimeoutId s3 \<noteq> None
                        then (clearTimeout (movementTimeoutId s3) s3)\<lparr>movementTimeoutId := None\<rparr>
                        else s3)
               else (if movementTimeoutId s1 = None
                     then (let (t, s2) = setTimeout s1 in s2\<lparr>movementTimeoutId := Some t\<rparr>)
                     else s1)))"

definition initDynamicResolutionSystem :: "world \<Rightarrow> world" where
  "initDynamicResolutionSystem s =
     (if \<not> scene s then s
      else (case camera s of
              None \<Rightarrow> s
            | Some cam \<Rightarrow>
                (let cam1 = ensureQuaternion cam
                 in s\<lparr>camera := Some cam1,
                      lastCameraPosition := Some (position cam1),
                      lastCameraRotationQ := Some (cameraQuaternion cam1)\<rparr>)))"

text \<open>
  \<open>initWithDefaults\<close>; \<open>isMobile\<close> is the result of the user-agent test. The source
  initialises \<open>initialModeIsDynamic\<close> to \<open>true\<close>.
\<close>

definition initWithDefaults :: "bool \<Rightarrow> world \<Rightarrow> world" where
  "initWithDefaults isMobile s =
     (let initialModeIsDynamic = True;
          initialManualPreset = ''MEDIUM'';
          s1 = (if isMobile
                then s\<lparr>dynamicHighPixelRatio := js_lit 0.5, dynamicLowPixelRatio := js_lit 0.35\<rparr>
                else s\<lparr>dynamicHighPixelRatio := js_lit 1.0, dynamicLowPixelRatio := js_lit 0.5\<rparr>)
      in if initialModeIsDynamic
         then (let s2 = (if camera s1 \<noteq> None then snd (hasCameraMoved True s1) else s1)
               in activateDynamicResolution s2)
         else applyPixelRatioPreset initialManualPreset s1)"

definition cleanupManualLOD :: "world \<Rightarrow> world" where
  "cleanupManualLOD s =
     (let s1 = (if movementTimeoutId s \<noteq> None
                then (clearTimeout (movementTimeoutId s) s)\<lparr>movementTimeoutId := None\<rparr>
                else s)
      in s1\<lparr>isDynamicResolutionActive := False, currentPixelRatioPreset := None,
            lastCameraPosition := None, lastCameraRotationQ := None,
            isConsideredMoving := False\<rparr>)"

section \<open>Events of a session\<close>

text \<open>
  What can happen to the controller between start-up and teardown: its entry points are
  called, the frame observer runs, a scheduled timeout fires, and the collaborators move
  the camera or the joystick or hide the document.
\<close>

datatype drs_event =
    ApplyPreset string
  | ActivateDynamic
  | Frame
  | TimerFires nat
  | InitWithDefaults bool
  | Cleanup
  | SetPixelRatio jsval
  | CameraMoves camera_obj
  | Joystick bool bool "(real \<times> real) option"
  | DocumentHidden bool

fun drs_step :: "drs_event \<Rightarrow> world \<Rightarrow> world" where
  "drs_step (ApplyPreset name) s = applyPixelRatioPreset name s"
| "drs_step ActivateDynamic s = activateDynamicResolution s"
| "drs_step Frame s = updateDynamicResolutionLogic s"
| "drs_step (TimerFires t) s = fireTimer t s"
| "drs_step (InitWithDefaults isMobile) s = initWithDefaults isMobile s"
| "drs_step Cleanup s = cleanupManualLOD s"
| "drs_step (SetPixelRatio r) s = setPixelRatio r s"
| "drs_step (CameraMoves cam) s = s\<lparr>camera := Some cam\<rparr>"
| "drs_step (Joystick active visible v) s =
     s\<lparr>window_joystickActive := active, window_joystickVisible := visible,
       window_joystickVector := v\<rparr>"
| "drs_step (DocumentHidden h) s = s\<lparr>document_hidden := h\<rparr>"

fun drs_run :: "drs_event list \<Rightarrow> world \<Rightarrow> world" where
  "drs_run [] s = s"
| "drs_run (e # es) s = drs_run es (drs_step e s)"

section \<open>The visibility culler (\<open>setupFrustumCullingObserver\<close>)\<close>

record bounding_info =
  boundingSphere :: "vec3 \<times> real"

text \<open>
  The splat mesh as the culler reads it. \<open>getBoundingInfo\<close> is \<open>None\<close> when the mesh has
  no such method and otherwise the value the method returns.
\<close>

record mesh_obj =
  uniqueId :: nat
  cachedBoundingInfo :: "bounding_info option"
  getBoundingInfo :: "bounding_info option"
  isVisible :: bool

record cache_entry =
  ce_boundingInfo :: bounding_info
  ce_boundingSphere :: "vec3 \<times> real"

text \<open>
  The variables of the observer's closure and the mesh it mutates. \<open>visibilityWrites\<close>
  logs every assignment to \<open>isVisible\<close>, oldest first.
\<close>

record culler =
  frustumCheckCount :: nat
  lastVisibilityState :: bool
  boundingCache :: "nat \<Rightarrow> cache_entry option"
  currentSplatMesh :: "mesh_obj option"
  visibilityWrites :: "bool list"

definition truthy :: "bool option \<Rightarrow> bool" where
  "truthy v = (case v of None \<Rightarrow> False | Some b \<Rightarrow> b)"

definition checkInterval :: "bool \<Rightarrow> bool \<Rightarrow> world \<Rightarrow> nat" where
  "checkInterval isLowEndDevice isMobile w =
     (if isLowEndDevice
      then (if window_joystickActive w \<or> truthy (window_isConsideredMoving w) then 12 else 60)
      else if isMobile
      then (if window_joystickActive w \<or> truthy (window_isConsideredMoving w) then 8 else 45)
      else (if window_joystickActive w \<or> truthy (window_isConsideredMoving w) then 5 else 30))"

text \<open>
  The observer's guard reads \<open>camera.isDisposed\<close> without calling it. On the camera that
  property is the method, and a function is truthy whatever a call of it would return.
\<close>

definition camera_isDisposed :: "camera_obj \<Rightarrow> bool" where
  "camera_isDisposed cam = True"

definition cameraGone :: "world \<Rightarrow> bool" where
  "cameraGone w = (case camera w of None \<Rightarrow> True | Some cam \<Rightarrow> camera_isDisposed cam)"

definition setVisible :: "mesh_obj \<Rightarrow> bool \<Rightarrow> culler \<Rightarrow> culler" where
  "setVisible mesh v c =
     c\<lparr>currentSplatMesh := Some (mesh\<lparr>isVisible := v\<rparr>),
       lastVisibilityState := v,
       visibilityWrites := visibilityWrites c @ [v]\<rparr>"

text \<open>
  The bounding sphere of the mesh: from the cache, else from the info stored on the mesh,
  else freshly computed; \<open>None\<close> when none of the three is available.
\<close>

definition lookupBounding :: "mesh_obj \<Rightarrow> culler \<Rightarrow> ((vec3 \<times> real) \<times> mesh_obj \<times> culler) option" where
  "lookupBounding mesh c =
     (case boundingCache c (uniqueId mesh) of
        Some cachedData \<Rightarrow> Some (ce_boundingSphere cachedData, mesh, c)
      | None \<Rightarrow>
          (case cachedBoundingInfo mesh of
             Some bi \<Rightarrow>
               Some (boundingSphere bi, mesh,
                     c\<lparr>boundingCache := (boundingCache c)(uniqueId mesh \<mapsto>
                          \<lparr>ce_boundingInfo = bi, ce_boundingSphere = boundingSphere bi\<rparr>)\<rparr>)
           | None \<Rightarrow>
               (case getBoundingInfo mesh of
                  Some bi \<Rightarrow>
                    (let mesh1 = mesh\<lparr>cachedBoundingInfo := Some bi\<rparr>
                     in Some (boundingSphere bi, mesh1,
                              c\<lparr>boundingCache := (boundingCache c)(uniqueId mesh \<mapsto>
                                   \<lparr>ce_boundingInfo = bi, ce_boundingSphere = boundingSphere bi\<rparr>),
                                currentSplatMesh := Some mesh1\<rparr>))
                | None \<Rightarrow> None)))"

text \<open>
  What one run of the observer did: it was skipped by the interval gate, it bailed out for
  a missing mesh or camera, it found no bounding information, or it consumed a frustum
  result.
\<close>

datatype cull_outcome = Skipped | Bailed | NoBounds | Tested bool

text \<open>
  The body of the observer after its guards: the lookup of the bounding sphere, the
  fail-open branch, the frustum test, the write of the flag on a change, and the purge of
  the cache. \<open>isInFrustum\<close> is the frustum test of the camera on this frame.
\<close>

definition frustumCullBody ::
  "(vec3 \<times> real \<Rightarrow> bool) \<Rightarrow> mesh_obj \<Rightarrow> culler \<Rightarrow> cull_outcome \<times> culler" where
  "frustumCullBody isInFrustum mesh c1 =
     (case lookupBounding mesh c1 of
        None \<Rightarrow>
          (NoBounds, if lastVisibilityState c1 \<noteq> True then setVisible mesh True c1 else c1)
      | Some (sphere, mesh1, c2) \<Rightarrow>
          (let inFrustum = isInFrustum sphere;
               c3 = (if lastVisibilityState c2 \<noteq> inFrustum
                     then setVisible mesh1 inFrustum c2 else c2)
           in (Tested inFrustum,
               if frustumCheckCount c3 > 1000
               then c3\<lparr>boundingCache := Map.empty, frustumCheckCount := 0\<rparr>
               else c3)))"

text \<open>
  The observer added by \<open>setupFrustumCullingObserver\<close>. \<open>isLowEndDevice\<close> and \<open>isMobile\<close>
  are the constants of the closure, \<open>w\<close> the globals the observer reads.
\<close>

definition frustumCullStep ::
  "bool \<Rightarrow> bool \<Rightarrow> (vec3 \<times> real \<Rightarrow> bool) \<Rightarrow> world \<Rightarrow> culler \<Rightarrow> cull_outcome \<times> culler" where
  "frustumCullStep isLowEndDevice isMobile isInFrustum w c =
     (let c1 = c\<lparr>frustumCheckCount := frustumCheckCount c + 1\<rparr>
      in if frustumCheckCount c1 mod checkInterval isLowEndDevice isMobile w \<noteq> 0 then (Skipped, c1)
         else (case currentSplatMesh c1 of
                 None \<Rightarrow> (Bailed, c1)
               | Some mesh \<Rightarrow>
                   if cameraGone w then (Bailed, c1)
                   else frustumCullBody isInFrustum mesh c1))"

definition frustumCullObserver ::
  "bool \<Rightarrow> bool \<Rightarrow> (vec3 \<times> real \<Rightarrow> bool) \<Rightarrow> world \<Rightarrow> culler \<Rightarrow> culler" where
  "frustumCullObserver isLowEndDevice isMobile isInFrustum w c =
     snd (frustumCullStep isLowEndDevice isMobile isInFrustum w c)"

text \<open>A run of rendered frames, each with its frustum test and the globals of that frame.\<close>

fun cullFrames ::
  "bool \<Rightarrow> bool \<Rightarrow> ((vec3 \<times> real \<Rightarrow> bool) \<times> world) list \<Rightarrow> culler \<Rightarrow> culler" where
  "cullFrames l m [] c = c"
| "cullFrames l m (f # fs) c = cullFrames l m fs (frustumCullObserver l m (fst f) (snd f) c)"

text \<open>
  The visibility values the culler decided on in a run of frames, in order: the frustum
  result of each frame that reached the test, and \<open>True\<close> for each frame without
  bounding information.
\<close>

fun consumedResults ::
  "bool \<Rightarrow> bool \<Rightarrow> ((vec3 \<times> real \<Rightarrow> bool) \<times> world) list \<Rightarrow> culler \<Rightarrow> bool list" where
  "consumedResults l m [] c = []"
| "consumedResults l m (f # fs) c =
     (case fst (frustumCullStep l m (fst f) (snd f) c) of
        Tested r \<Rightarrow> [r]
      | NoBounds \<Rightarrow> [True]
      | _ \<Rightarrow> [])
     @ consumedResults l m fs (frustumCullObserver l m (fst f) (snd f) c)"

text \<open>
  Following the specification's words: the number of value transitions in a sequence of
  results, the first one compared with the cached last value.
\<close>

fun transitions :: "bool \<Rightarrow> bool list \<Rightarrow> nat" where
  "transitions prev [] = 0"
| "transitions prev (r # rs) = (if r \<noteq> prev then 1 else 0) + transitions r rs"

section \<open>Sample states\<close>

definition origin :: vec3 where
  "origin = \<lparr>vx = 0, vy = 0, vz = 0\<rparr>"

definition identityQ :: quat where
  "identityQ = \<lparr>qx = 0, qy = 0, qz = 0, qw = 1\<rparr>"

definition cameraAt :: "vec3 \<Rightarrow> camera_obj" where
  "cameraAt p = \<lparr>position = p, rotationQuaternion = Some identityQ,
                 eulerQuaternion = identityQ, cam_disposed = False\<rparr>"

text \<open>
  The page after its scripts have run and \<open>initManualLOD\<close> has taken the snapshot: Manual
  mode at the configured default ratio 0.5, the camera at the origin, a live engine, the
  joystick idle, no timeout scheduled, and no \<open>isConsideredMoving\<close> property on
  \<open>window\<close>.
\<close>

definition bootWorld :: world where
  "bootWorld =
     \<lparr>isDynamicResolutionActive = False, currentPixelRatioPreset = None, drsFrameCounter = 0,
      dynamicHighPixelRatio = js_lit 0.75, dynamicLowPixelRatio = js_lit 0.5,
      movementTimeoutId = None,
      lastCameraPosition = Some origin, lastCameraRotationQ = Some identityQ,
      isConsideredMoving = False, camera = Some (cameraAt origin), scene = True,
      engine = Some \<lparr>isDisposed = False, hardwareScalingLevel = Fin 1\<rparr>,
      window_currentPixelRatio = js_lit 0.5, window_joystickActive = False,
      window_joystickVisible = False, window_joystickVector = Some (0, 0),
      window_isConsideredMoving = None, document_hidden = False,
      pendingTimers = [], nextTimerId = 1\<rparr>"

definition farAway :: vec3 where
  "farAway = \<lparr>vx = 1, vy = 0, vz = 0\<rparr>"

text \<open>The camera has moved one unit away from the pose of the snapshot.\<close>

definition movedWorld :: world where
  "movedWorld = bootWorld\<lparr>camera := Some (cameraAt farAway)\<rparr>"

text \<open>Manual mode, with timeout 1 still in the queue of the host.\<close>

definition staleTimerWorld :: world where
  "staleTimerWorld =
     bootWorld\<lparr>currentPixelRatioPreset := Some ''LOW'', window_currentPixelRatio := js_lit 0.35,
       movementTimeoutId := Some 1, pendingTimers := [1], nextTimerId := 2\<rparr>"

text \<open>A desktop in Manual Medium, the camera at rest; a mobile device in Manual Medium, the camera moved.\<close>

definition desktopMediumWorld :: world where
  "desktopMediumWorld =
     bootWorld\<lparr>dynamicHighPixelRatio := js_lit 1.0, dynamicLowPixelRatio := js_lit 0.5,
       currentPixelRatioPreset := Some ''MEDIUM''\<rparr>"

definition mobileMovingWorld :: world where
  "mobileMovingWorld =
     movedWorld\<lparr>dynamicHighPixelRatio := js_lit 0.5, dynamicLowPixelRatio := js_lit 0.35,
       currentPixelRatioPreset := Some ''MEDIUM''\<rparr>"

text \<open>Manual mode with the stored ratio 0.35, and with the stored ratio 0.755.\<close>

definition lowRatioWorld :: world where
  "lowRatioWorld =
     bootWorld\<lparr>currentPixelRatioPreset := Some ''LOW'', window_currentPixelRatio := js_lit 0.35\<rparr>"

definition offPresetWorld :: world where
  "offPresetWorld = bootWorld\<lparr>window_currentPixelRatio := js_lit 0.755\<rparr>"

definition joystickWorld :: world where
  "joystickWorld = bootWorld\<lparr>window_joystickActive := True, window_joystickVisible := True\<rparr>"

definition unitSphere :: bounding_info where
  "unitSphere = \<lparr>boundingSphere = (origin, 1)\<rparr>"

definition splatMesh :: mesh_obj where
  "splatMesh =
     \<lparr>uniqueId = 7, cachedBoundingInfo = None, getBoundingInfo = Some unitSphere, isVisible = True\<rparr>"


definition bootCuller :: "mesh_obj \<Rightarrow> culler" where
  "bootCuller mesh =
     \<lparr>frustumCheckCount = 0, lastVisibilityState = True, boundingCache = Map.empty,
      currentSplatMesh = Some mesh, visibilityWrites = []\<rparr>"


text \<open>
  Frames that feed the given frustum results to the culler of a desktop with the joystick
  held: the interval is 5, so each result is held for five frames, the fifth of which
  passes the interval gate.
\<close>

definition feed :: "bool list \<Rightarrow> ((vec3 \<times> real \<Rightarrow> bool) \<times> world) list" where
  "feed rs = concat (map (\<lambda>r. map (\<lambda>_. (\<lambda>_. r, joystickWorld)) [1 ..< 6]) rs)"

section \<open>Notions of the specification\<close>

text \<open>Following the specification's words: \<open>clamp(r, lo, hi)\<close>.\<close>

definition clamp :: "jsnum \<Rightarrow> jsnum \<Rightarrow> jsnum \<Rightarrow> jsnum" where
  "clamp r lo hi = (if js_lt r lo then lo else if js_gt r hi then hi else r)"

text \<open>
  Two ratios are within epsilon when their difference, computed and compared as the
  source does in double arithmetic, is below the literal 0.01.
\<close>

definition withinEpsilon :: "jsnum \<Rightarrow> jsnum \<Rightarrow> bool" where
  "withinEpsilon a b = js_lt (Math_abs (js_sub a b)) (js_lit 0.01)"

text \<open>
  What the applier leaves stored when it is asked for \<open>r\<close>: the clamped value, unless the
  stored ratio is within epsilon of it.
\<close>

definition appliedRatio :: "jsnum \<Rightarrow> jsnum \<Rightarrow> jsnum" where
  "appliedRatio stored r =
     (let c = clamp r (js_lit 0.1) (js_lit 1.5) in if withinEpsilon stored c then stored else c)"

text \<open>Following the specification's words: a float within [0.1, 1.5].\<close>

definition ratioInBounds :: "jsnum \<Rightarrow> bool" where
  "ratioInBounds r = (case r of Fin x \<Rightarrow> 0.1 \<le> x \<and> x \<le> 1.5 | _ \<Rightarrow> False)"

text \<open>The stored camera-pose snapshot, and the pose of a camera as a snapshot.\<close>

definition snapshot :: "world \<Rightarrow> vec3 option \<times> quat option" where
  "snapshot s = (lastCameraPosition s, lastCameraRotationQ s)"

definition cameraPose :: "camera_obj \<Rightarrow> vec3 option \<times> quat option" where
  "cameraPose cam = (Some (position cam), Some (cameraQuaternion cam))"

text \<open>At most one timeout is scheduled, the one whose handle is stored.\<close>

definition timerDiscipline :: "world \<Rightarrow> bool" where
  "timerDiscipline s = (set (pendingTimers s) \<subseteq> set_option (movementTimeoutId s))"

text \<open>The visibility flag of the tracked mesh.\<close>

definition meshVisible :: "culler \<Rightarrow> bool" where
  "meshVisible c = (case currentSplatMesh c of None \<Rightarrow> False | Some mesh \<Rightarrow> isVisible mesh)"

text \<open>
  The cached visibility never claims more than the mesh shows: the culler is the only
  writer of the flag and a freshly loaded mesh is visible.
\<close>

definition cacheCoherent :: "culler \<Rightarrow> bool" where
  "cacheCoherent c =
     (case currentSplatMesh c of None \<Rightarrow> True | Some mesh \<Rightarrow> lastVisibilityState c \<longrightarrow> isVisible mesh)"

text \<open>The visibility value a run of the observer decided on, if it reached a decision.\<close>

definition decided :: "cull_outcome \<Rightarrow> bool option" where
  "decided out = (case out of Tested r \<Rightarrow> Some r | NoBounds \<Rightarrow> Some True | _ \<Rightarrow> None)"

section \<open>Auxiliary facts\<close>

subsection \<open>Evaluation of double arithmetic\<close>

lemma binade_numeral:
  "binade (numeral k) x e =
     (if 2 \<le> x then binade (pred_numeral k) (x / 2) (e + 1)
      else if x < 1 \<and> - 1022 < e then binade (pred_numeral k) (x * 2) (e - 1)
      else e)"
  by (simp add: numeral_eq_Suc)

lemmas dbl_eval = js_lit_def js_round_def round_in_binade_def finite_or_infinite_def
  round_to_multiple_def round_half_even_def nearest_even_def pow2_def binade_numeral

text \<open>The doubles that the literals of the source denote.\<close>

lemma js_lit_values:
  "js_lit 0.01 = Fin (5764607523034235 / 2 ^ 59)"
  "js_lit 0.1 = Fin (3602879701896397 / 2 ^ 55)"
  "js_lit 0.35 = Fin (3152519739159347 / 2 ^ 53)"
  "js_lit 0.5 = Fin (1 / 2)"
  "js_lit 0.75 = Fin (3 / 4)"
  "js_lit 1.0 = Fin 1"
  "js_lit 1.5 = Fin (3 / 2)"
  by (simp_all add: dbl_eval)

lemmas drs_defs = setPixelRatio_def js_gt_def activateDynamicResolution_def
  hasCameraMoved_def hasCameraMoved_compare_def movedSinceSnapshot_def engineGone_def
  ensureQuaternion_def cameraQuaternion_def DistanceSquared_def Dot_def applyDynamicResolution_def
  clearTimeout_def setTimeout_def updateDynamicResolutionLogic_def applyPixelRatioPreset_def
  deactivateDynamicResolution_def fireTimer_def movementTimeoutCallback_def PIXEL_RATIO_PRESETS_def
  DRS_CHECK_INTERVAL_def movementDetectionThresholdPosSq_def movementDetectionThresholdRotDot_def
  joystickMovementThreshold_def initWithDefaults_def cleanupManualLOD_def dbl_eval Let_def

lemmas sample_defs = bootWorld_def cameraAt_def origin_def identityQ_def farAway_def movedWorld_def
  staleTimerWorld_def desktopMediumWorld_def mobileMovingWorld_def lowRatioWorld_def
  offPresetWorld_def

subsection \<open>The applier\<close>

lemma guard_clamp_eq:
  "a < b \<Longrightarrow>
     (if js_lt r (Fin a) \<or> js_gt r (Fin b) then Math_max (Fin a) (Math_min (Fin b) r) else r)
       = clamp r (Fin a) (Fin b)"
  by (cases r) (auto simp: clamp_def js_gt_def)

lemma setPixelRatio_stored:
  "window_currentPixelRatio (setPixelRatio (Number r) s) = appliedRatio (window_currentPixelRatio s) r"
proof -
  have "(3602879701896397 / 2 ^ 55 :: real) < 3 / 2" by simp
  note g = guard_clamp_eq [OF this, of r]
  show ?thesis
    unfolding setPixelRatio_def appliedRatio_def withinEpsilon_def Let_def js_lit_values
      isNumber.simps ToNumber.simps not_True_eq_False simp_thms g
    by (simp split: option.splits)
qed

lemma clamp_in_bounds: "r \<noteq> NaN \<Longrightarrow> ratioInBounds (clamp r (js_lit 0.1) (js_lit 1.5))"
  unfolding js_lit_values
  by (cases r) (auto simp: clamp_def js_gt_def ratioInBounds_def)

lemma appliedRatio_in_bounds:
  "r \<noteq> NaN \<Longrightarrow> ratioInBounds stored \<Longrightarrow> ratioInBounds (appliedRatio stored r)"
  using clamp_in_bounds [of r] by (simp add: appliedRatio_def Let_def)

lemma setPixelRatio_keeps_bounds:
  "r \<noteq> NaN \<Longrightarrow> ratioInBounds (window_currentPixelRatio s) \<Longrightarrow>
     ratioInBounds (window_currentPixelRatio (setPixelRatio (Number r) s))"
  by (simp add: setPixelRatio_stored appliedRatio_in_bounds)

lemma setPixelRatio_sequence_keeps_bounds:
  "NaN \<notin> set rs \<Longrightarrow> ratioInBounds (window_currentPixelRatio s) \<Longrightarrow>
     ratioInBounds (window_currentPixelRatio (fold setPixelRatio (map Number rs) s))"
  by (induction rs arbitrary: s) (auto simp: setPixelRatio_keeps_bounds)

text \<open>A call with \<open>undefined\<close> has the effect of a call with NaN.\<close>

lemma min_max_NaN:
  "Math_min y NaN = NaN" "Math_max x NaN = NaN" "js_lt x NaN = False" "js_sub x NaN = NaN"
  by (cases y, simp_all) (cases x, simp_all)+

lemma setPixelRatio_Undefined: "setPixelRatio Undefined s = setPixelRatio (Number NaN) s"
  by (simp add: setPixelRatio_def Let_def js_gt_def min_max_NaN)

lemma setPixelRatio_frame:
  "dynamicLowPixelRatio (setPixelRatio r s) = dynamicLowPixelRatio s"
  "dynamicHighPixelRatio (setPixelRatio r s) = dynamicHighPixelRatio s"
  "movementTimeoutId (setPixelRatio r s) = movementTimeoutId s"
  "pendingTimers (setPixelRatio r s) = pendingTimers s"
  "isDynamicResolutionActive (setPixelRatio r s) = isDynamicResolutionActive s"
  "window_isConsideredMoving (setPixelRatio r s) = window_isConsideredMoving s"
  by (simp_all add: setPixelRatio_def Let_def split: option.splits)

subsection \<open>Deactivation\<close>

text \<open>
  On a call whose incremented counter is not a multiple of five, the function only counts;
  on the fifth it leaves Dynamic mode and cancels the timer.
\<close>

lemma deactivateDynamicResolution_skips:
  assumes "isDynamicResolutionActive s" and "\<not> engineGone s" and "\<not> document_hidden s"
    and "(drsFrameCounter s + 1) mod 5 \<noteq> 0"
  shows "deactivateDynamicResolution s = s\<lparr>drsFrameCounter := drsFrameCounter s + 1\<rparr>"
  using assms by (simp add: deactivateDynamicResolution_def DRS_CHECK_INTERVAL_def Let_def)

lemma deactivateDynamicResolution_fifth:
  assumes "isDynamicResolutionActive s" and "\<not> engineGone s" and "\<not> document_hidden s"
    and "(drsFrameCounter s + 1) mod 5 = 0" and "movementTimeoutId s = Some t"
  shows "\<not> isDynamicResolutionActive (deactivateDynamicResolution s)"
    and "movementTimeoutId (deactivateDynamicResolution s) = None"
    and "t \<notin> set (pendingTimers (deactivateDynamicResolution s))"
  using assms
  by (simp_all add: deactivateDynamicResolution_def DRS_CHECK_INTERVAL_def clearTimeout_def Let_def)

text \<open>So a manual preset applied on such a call leaves the mode and the timer as they were.\<close>

lemma applyPixelRatioPreset_skips_deactivation:
  assumes "isDynamicResolutionActive s" and "\<not> engineGone s" and "\<not> document_hidden s"
    and "(drsFrameCounter s + 1) mod 5 \<noteq> 0" and "PIXEL_RATIO_PRESETS name = Some preset"
  shows "isDynamicResolutionActive (applyPixelRatioPreset name s)"
    and "pendingTimers (applyPixelRatioPreset name s) = pendingTimers s"
    and "movementTimeoutId (applyPixelRatioPreset name s) = movementTimeoutId s"
  using assms
  by (simp_all add: applyPixelRatioPreset_def deactivateDynamicResolution_skips setPixelRatio_frame)

text \<open>
  A name that the table only inherits passes the lookup; its \<open>pixelRatio\<close> is
  \<open>undefined\<close>, and the applier stores NaN.
\<close>

lemma applyPixelRatioPreset_inherited_key:
  "PIXEL_RATIO_PRESETS ''toString'' = Some Inherited \<and>
   currentPixelRatioPreset (applyPixelRatioPreset ''toString'' bootWorld) = Some ''toString'' \<and>
   window_currentPixelRatio (applyPixelRatioPreset ''toString'' bootWorld) = NaN"
  by (simp add: applyPixelRatioPreset_def PIXEL_RATIO_PRESETS_def objectPrototypeKeys_def
      deactivateDynamicResolution_def setPixelRatio_Undefined setPixelRatio_def bootWorld_def
      js_gt_def min_max_NaN Let_def)

subsection \<open>The movement detector\<close>

lemma compare_fst:
  "fst (hasCameraMoved_compare forceCheck cam lp lq s) =
     movedSinceSnapshot (ensureQuaternion cam) lp lq s"
  by (simp add: hasCameraMoved_compare_def Let_def)

lemma compare_snd:
  "snd (hasCameraMoved_compare forceCheck cam lp lq s) =
     (if \<not> forceCheck \<and>
         (isDynamicResolutionActive s \<or> movedSinceSnapshot (ensureQuaternion cam) lp lq s)
      then s\<lparr>camera := Some (ensureQuaternion cam),
             lastCameraPosition := Some (position (ensureQuaternion cam)),
             lastCameraRotationQ := Some (cameraQuaternion (ensureQuaternion cam))\<rparr>
      else s\<lparr>camera := Some (ensureQuaternion cam)\<rparr>)"
  by (simp add: hasCameraMoved_compare_def Let_def)

lemma ensureQuaternion_pose [simp]:
  "position (ensureQuaternion cam) = position cam"
  "cameraQuaternion (ensureQuaternion cam) = cameraQuaternion cam"
  by (simp_all add: ensureQuaternion_def cameraQuaternion_def split: option.splits)

lemma compare_snapshot:
  "snapshot (snd (hasCameraMoved_compare forceCheck cam lp lq s)) =
     (if \<not> forceCheck \<and>
         (isDynamicResolutionActive s \<or> movedSinceSnapshot (ensureQuaternion cam) lp lq s)
      then cameraPose cam else snapshot s)"
  by (simp add: compare_snd snapshot_def cameraPose_def)

text \<open>The first call after a reset of the snapshot, unfolded.\<close>

lemma hasCameraMoved_uninitialised:
  assumes "camera s = Some cam" and "\<not> engineGone s"
    and "lastCameraPosition s = None \<or> lastCameraRotationQ s = None"
  shows "hasCameraMoved f s =
     (if \<not> f
      then (False, s\<lparr>camera := Some (ensureQuaternion cam),
                     lastCameraPosition := Some (position (ensureQuaternion cam)),
                     lastCameraRotationQ := Some (cameraQuaternion (ensureQuaternion cam))\<rparr>)
      else hasCameraMoved_compare f (ensureQuaternion cam)
             (position (ensureQuaternion cam)) (cameraQuaternion (ensureQuaternion cam))
             (s\<lparr>camera := Some (ensureQuaternion cam),
                lastCameraPosition := Some (position (ensureQuaternion cam)),
                lastCameraRotationQ := Some (cameraQuaternion (ensureQuaternion cam))\<rparr>))"
  using assms unfolding hasCameraMoved_def Let_def
  by (auto split: option.splits)

lemma hasCameraMoved_initialised:
  assumes "camera s = Some cam" and "\<not> engineGone s"
    and "lastCameraPosition s = Some lp" and "lastCameraRotationQ s = Some lq"
  shows "hasCameraMoved f s = hasCameraMoved_compare f cam lp lq s"
  using assms by (simp add: hasCameraMoved_def)

text \<open>The detector writes nothing but the camera's quaternion and the snapshot.\<close>

lemma hasCameraMoved_compare_preserves:
  assumes "\<And>t c lp lq. g (t\<lparr>camera := c, lastCameraPosition := lp, lastCameraRotationQ := lq\<rparr>) = g t"
    and "\<And>t c. g (t\<lparr>camera := c\<rparr>) = g t"
  shows "g (snd (hasCameraMoved_compare f cam lp lq s)) = g s"
  by (simp add: compare_snd assms)

lemma hasCameraMoved_preserves:
  assumes upd3: "\<And>t c lp lq. g (t\<lparr>camera := c, lastCameraPosition := lp, lastCameraRotationQ := lq\<rparr>) = g t"
    and upd1: "\<And>t c. g (t\<lparr>camera := c\<rparr>) = g t"
  shows "g (snd (hasCameraMoved f s)) = g s"
proof (cases "camera s")
  case None
  then show ?thesis by (simp add: hasCameraMoved_def)
next
  case (Some cam)
  show ?thesis
  proof (cases "engineGone s")
    case True
    then show ?thesis using Some by (simp add: hasCameraMoved_def)
  next
    case live: False
    show ?thesis
    proof (cases "lastCameraPosition s = None \<or> lastCameraRotationQ s = None")
      case True
      show ?thesis
        unfolding hasCameraMoved_uninitialised [OF Some live True]
        by (simp add: hasCameraMoved_compare_preserves [of g, OF upd3 upd1] upd3)
    next
      case False
      then obtain lp lq where "lastCameraPosition s = Some lp" and "lastCameraRotationQ s = Some lq"
        by auto
      then show ?thesis
        unfolding hasCameraMoved_initialised [OF Some live \<open>lastCameraPosition s = Some lp\<close>
            \<open>lastCameraRotationQ s = Some lq\<close>]
        by (simp add: hasCameraMoved_compare_preserves [of g, OF upd3 upd1])
    qed
  qed
qed

lemma hasCameraMoved_frame:
  "window_currentPixelRatio (snd (hasCameraMoved f s)) = window_currentPixelRatio s"
  "dynamicLowPixelRatio (snd (hasCameraMoved f s)) = dynamicLowPixelRatio s"
  "dynamicHighPixelRatio (snd (hasCameraMoved f s)) = dynamicHighPixelRatio s"
  "movementTimeoutId (snd (hasCameraMoved f s)) = movementTimeoutId s"
  "pendingTimers (snd (hasCameraMoved f s)) = pendingTimers s"
  "isDynamicResolutionActive (snd (hasCameraMoved f s)) = isDynamicResolutionActive s"
  "window_isConsideredMoving (snd (hasCameraMoved f s)) = window_isConsideredMoving s"
  by (rule hasCameraMoved_preserves; simp)+


subsection \<open>Activation\<close>

lemma clearTimeout_mode:
  "isDynamicResolutionActive (clearTimeout h s) = isDynamicResolutionActive s"
  by (simp add: clearTimeout_def split: option.splits)

lemma activateDynamicResolution_active:
  "isDynamicResolutionActive (activateDynamicResolution s)"
  by (simp add: activateDynamicResolution_def Let_def case_prod_unfold applyDynamicResolution_def
      setPixelRatio_frame clearTimeout_mode hasCameraMoved_frame)

text \<open>From every state and on every device, \<open>initWithDefaults\<close> ends in Dynamic mode.\<close>

lemma initWithDefaults_always_dynamic:
  "isDynamicResolutionActive (initWithDefaults isMobile s)"
  by (simp add: initWithDefaults_def Let_def activateDynamicResolution_active)

subsection \<open>No entry point assigns \<open>window.isConsideredMoving\<close>\<close>

lemma clearTimeout_window:
  "window_isConsideredMoving (clearTimeout h s) = window_isConsideredMoving s"
  by (simp add: clearTimeout_def split: option.splits)

lemma deactivateDynamicResolution_window:
  "window_isConsideredMoving (deactivateDynamicResolution s) = window_isConsideredMoving s"
  by (simp add: deactivateDynamicResolution_def clearTimeout_window Let_def)

lemma applyPixelRatioPreset_window:
  "window_isConsideredMoving (applyPixelRatioPreset n s) = window_isConsideredMoving s"
  by (simp add: applyPixelRatioPreset_def setPixelRatio_frame deactivateDynamicResolution_window
      split: option.splits)

lemma activateDynamicResolution_window:
  "window_isConsideredMoving (activateDynamicResolution s) = window_isConsideredMoving s"
  by (simp add: activateDynamicResolution_def Let_def case_prod_unfold applyDynamicResolution_def
      setPixelRatio_frame clearTimeout_window hasCameraMoved_frame)

lemma updateDynamicResolutionLogic_window:
  "window_isConsideredMoving (updateDynamicResolutionLogic s) = window_isConsideredMoving s"
  by (simp add: updateDynamicResolutionLogic_def Let_def case_prod_unfold applyDynamicResolution_def
      setPixelRatio_frame clearTimeout_window hasCameraMoved_frame setTimeout_def)

lemma fireTimer_window:
  "window_isConsideredMoving (fireTimer t s) = window_isConsideredMoving s"
  by (simp add: fireTimer_def movementTimeoutCallback_def applyDynamicResolution_def
      setPixelRatio_frame)

lemma initWithDefaults_window:
  "window_isConsideredMoving (initWithDefaults mob s) = window_isConsideredMoving s"
  by (simp add: initWithDefaults_def Let_def activateDynamicResolution_window hasCameraMoved_frame)

lemma cleanupManualLOD_window:
  "window_isConsideredMoving (cleanupManualLOD s) = window_isConsideredMoving s"
  by (simp add: cleanupManualLOD_def Let_def clearTimeout_window)

lemma drs_step_window:
  "window_isConsideredMoving (drs_step e s) = window_isConsideredMoving s"
  by (cases e)
     (simp_all add: applyPixelRatioPreset_window activateDynamicResolution_window
        updateDynamicResolutionLogic_window fireTimer_window initWithDefaults_window
        cleanupManualLOD_window setPixelRatio_frame)

lemma drs_run_window:
  "window_isConsideredMoving (drs_run es s) = window_isConsideredMoving s"
  by (induction es arbitrary: s) (simp_all add: drs_step_window)


subsection \<open>The timer discipline is an invariant\<close>

lemma timerDiscipline_cong:
  "movementTimeoutId t = movementTimeoutId s \<Longrightarrow> pendingTimers t = pendingTimers s \<Longrightarrow>
     timerDiscipline t = timerDiscipline s"
  by (simp add: timerDiscipline_def)

lemma timerDiscipline_update:
  "timerDiscipline (s\<lparr>currentPixelRatioPreset := p\<rparr>) = timerDiscipline s"
  "timerDiscipline (s\<lparr>isDynamicResolutionActive := a\<rparr>) = timerDiscipline s"
  "timerDiscipline (s\<lparr>isConsideredMoving := b\<rparr>) = timerDiscipline s"
  "timerDiscipline (s\<lparr>drsFrameCounter := n\<rparr>) = timerDiscipline s"
  "timerDiscipline (s\<lparr>dynamicHighPixelRatio := h\<rparr>) = timerDiscipline s"
  "timerDiscipline (s\<lparr>dynamicLowPixelRatio := l\<rparr>) = timerDiscipline s"
  "timerDiscipline (s\<lparr>lastCameraPosition := lp\<rparr>) = timerDiscipline s"
  "timerDiscipline (s\<lparr>lastCameraRotationQ := lq\<rparr>) = timerDiscipline s"
  "timerDiscipline (s\<lparr>camera := c\<rparr>) = timerDiscipline s"
  "timerDiscipline (s\<lparr>document_hidden := d\<rparr>) = timerDiscipline s"
  "timerDiscipline (s\<lparr>window_joystickActive := ja\<rparr>) = timerDiscipline s"
  "timerDiscipline (s\<lparr>window_joystickVisible := jv\<rparr>) = timerDiscipline s"
  "timerDiscipline (s\<lparr>window_joystickVector := jvec\<rparr>) = timerDiscipline s"
  by (simp_all add: timerDiscipline_def)

lemma timerDiscipline_cleared:
  assumes "timerDiscipline s"
  shows "pendingTimers (clearTimeout (movementTimeoutId s) s) = []"
    and "timerDiscipline ((clearTimeout (movementTimeoutId s) s)\<lparr>movementTimeoutId := None\<rparr>)"
  using assms
  by (cases "movementTimeoutId s"; auto simp: timerDiscipline_def clearTimeout_def filter_empty_conv)+

lemma timerDiscipline_idle:
  "timerDiscipline s \<Longrightarrow> movementTimeoutId s = None \<Longrightarrow> pendingTimers s = []"
  by (simp add: timerDiscipline_def)

lemma timerDiscipline_scheduled:
  assumes "timerDiscipline s" and "movementTimeoutId s = None"
  shows "timerDiscipline ((snd (setTimeout s))\<lparr>movementTimeoutId := Some (fst (setTimeout s))\<rparr>)"
  using assms by (simp add: timerDiscipline_def setTimeout_def)

lemma setPixelRatio_timers:
  "timerDiscipline (setPixelRatio r s) = timerDiscipline s"
  by (rule timerDiscipline_cong) (simp_all add: setPixelRatio_frame)

lemma hasCameraMoved_timers:
  "timerDiscipline (snd (hasCameraMoved f s)) = timerDiscipline s"
  by (rule timerDiscipline_cong) (simp_all add: hasCameraMoved_frame)

lemma deactivateDynamicResolution_timers:
  assumes "timerDiscipline s"
  shows "timerDiscipline (deactivateDynamicResolution s)"
proof -
  let ?t = "s\<lparr>drsFrameCounter := drsFrameCounter s + 1, isDynamicResolutionActive := False\<rparr>"
  have "timerDiscipline ?t" using assms by (simp add: timerDiscipline_update)
  from timerDiscipline_cleared(2) [OF this] assms show ?thesis
    by (simp add: deactivateDynamicResolution_def Let_def timerDiscipline_update)
qed

lemma applyPixelRatioPreset_timers:
  "timerDiscipline s \<Longrightarrow> timerDiscipline (applyPixelRatioPreset n s)"
  by (simp add: applyPixelRatioPreset_def setPixelRatio_timers timerDiscipline_update
      deactivateDynamicResolution_timers split: option.splits)

lemma activateDynamicResolution_unfold:
  assumes "\<not> isDynamicResolutionActive s"
  defines "s1 \<equiv> s\<lparr>isDynamicResolutionActive := True, currentPixelRatioPreset := None\<rparr>"
  defines "s3 \<equiv> (snd (hasCameraMoved True s1))\<lparr>isConsideredMoving := fst (hasCameraMoved True s1)\<rparr>"
  defines "s4 \<equiv> setPixelRatio (Number (dynamicHighPixelRatio s3)) s3"
  shows "activateDynamicResolution s =
      (if fst (hasCameraMoved True s1) then setPixelRatio (Number (dynamicLowPixelRatio s3)) s3
       else (clearTimeout (movementTimeoutId s4) s4)\<lparr>movementTimeoutId := None\<rparr>)"
  using assms(1)
  unfolding activateDynamicResolution_def s1_def s3_def s4_def Let_def applyDynamicResolution_def
  by (simp add: case_prod_unfold)

lemma activateDynamicResolution_timers:
  assumes "timerDiscipline s"
  shows "timerDiscipline (activateDynamicResolution s)"
proof (cases "isDynamicResolutionActive s")
  case True
  then show ?thesis using assms by (simp add: activateDynamicResolution_def)
next
  case False
  let ?s1 = "s\<lparr>isDynamicResolutionActive := True, currentPixelRatioPreset := None\<rparr>"
  have d3: "timerDiscipline (setPixelRatio v ((snd (hasCameraMoved True ?s1))\<lparr>isConsideredMoving := b\<rparr>))"
    for v b
    using assms by (simp add: setPixelRatio_timers timerDiscipline_update hasCameraMoved_timers)
  show ?thesis
    unfolding activateDynamicResolution_unfold [OF False]
    using d3 timerDiscipline_cleared(2) [OF d3] by simp
qed

lemma updateDynamicResolutionLogic_timers:
  assumes "timerDiscipline s"
  shows "timerDiscipline (updateDynamicResolutionLogic s)"
proof (cases "\<not> isDynamicResolutionActive s \<or> engineGone s \<or> \<not> scene s \<or> camera s = None
    \<or> document_hidden s")
  case True
  then have "updateDynamicResolutionLogic s =
      (if \<not> isDynamicResolutionActive s \<and> movementTimeoutId s \<noteq> None
       then (clearTimeout (movementTimeoutId s) s)\<lparr>movementTimeoutId := None\<rparr> else s)"
    unfolding updateDynamicResolutionLogic_def by (simp only: if_True)
  then show ?thesis using assms timerDiscipline_cleared(2) [OF assms] by simp
next
  case False
  let ?s1 = "snd (hasCameraMoved False s)"
  let ?s2 = "?s1\<lparr>isConsideredMoving := True\<rparr>"
  let ?s3 = "(if js_gt (Math_abs (js_sub (window_currentPixelRatio ?s2) (dynamicLowPixelRatio ?s2)))
                  (js_lit 0.01)
              then applyDynamicResolution (dynamicLowPixelRatio ?s2) ?s2 else ?s2)"
  have eq: "updateDynamicResolutionLogic s =
      (if fst (hasCameraMoved False s)
       then (if movementTimeoutId ?s3 \<noteq> None
             then (clearTimeout (movementTimeoutId ?s3) ?s3)\<lparr>movementTimeoutId := None\<rparr>
             else ?s3)
       else (if movementTimeoutId ?s1 = None
             then (snd (setTimeout ?s1))\<lparr>movementTimeoutId := Some (fst (setTimeout ?s1))\<rparr>
             else ?s1))"
    using False unfolding updateDynamicResolutionLogic_def Let_def case_prod_unfold
    by (simp only: if_False)
  have d1: "timerDiscipline ?s1" using assms by (simp add: hasCameraMoved_timers)
  have d3: "timerDiscipline ?s3"
    using d1 by (simp add: timerDiscipline_update setPixelRatio_timers applyDynamicResolution_def)
  show ?thesis
    unfolding eq
    using d1 d3 timerDiscipline_cleared(2) [OF d3] timerDiscipline_scheduled [OF d1]
    by (simp only: split: if_split) blast
qed

lemma fireTimer_timers:
  assumes "timerDiscipline s"
  shows "timerDiscipline (fireTimer t s)"
proof (cases "t \<in> set (pendingTimers s)")
  case False
  then show ?thesis using assms by (simp add: fireTimer_def)
next
  case True
  then have "filter (\<lambda>u. u \<noteq> t) (pendingTimers s) = []"
    using assms by (cases "movementTimeoutId s") (auto simp: timerDiscipline_def filter_empty_conv)
  then show ?thesis using True
    by (simp add: fireTimer_def movementTimeoutCallback_def applyDynamicResolution_def
        timerDiscipline_def setPixelRatio_frame)
qed

lemma initWithDefaults_timers:
  "timerDiscipline s \<Longrightarrow> timerDiscipline (initWithDefaults mob s)"
  by (simp add: initWithDefaults_def Let_def hasCameraMoved_timers timerDiscipline_update
      activateDynamicResolution_timers)

lemma cleanupManualLOD_timers:
  assumes "timerDiscipline s"
  shows "timerDiscipline (cleanupManualLOD s)"
  using assms timerDiscipline_cleared(2) [OF assms]
  by (simp add: cleanupManualLOD_def Let_def timerDiscipline_update)

lemma drs_step_timers:
  "timerDiscipline s \<Longrightarrow> timerDiscipline (drs_step e s)"
  by (cases e)
     (simp_all add: applyPixelRatioPreset_timers activateDynamicResolution_timers
        updateDynamicResolutionLogic_timers fireTimer_timers initWithDefaults_timers
        cleanupManualLOD_timers setPixelRatio_timers timerDiscipline_update)

lemma drs_run_timers:
  "timerDiscipline s \<Longrightarrow> timerDiscipline (drs_run es s)"
  by (induction es arbitrary: s) (simp_all add: drs_step_timers)

subsection \<open>The culler\<close>

text \<open>The guard on the camera holds on every frame.\<close>

lemma cameraGone_always: "cameraGone w"
  by (simp add: cameraGone_def camera_isDisposed_def split: option.splits)

text \<open>So the observer never reaches a decision and never writes the flag.\<close>

lemma frustumCullStep_bails:
  "decided (fst (frustumCullStep l m f w c)) = None"
  "visibilityWrites (snd (frustumCullStep l m f w c)) = visibilityWrites c"
  "lastVisibilityState (snd (frustumCullStep l m f w c)) = lastVisibilityState c"
  "currentSplatMesh (snd (frustumCullStep l m f w c)) = currentSplatMesh c"
  by (simp_all add: frustumCullStep_def Let_def cameraGone_always decided_def split: option.splits)

lemma cullFrames_never_writes:
  "visibilityWrites (cullFrames l m fs c) = visibilityWrites c"
  "currentSplatMesh (cullFrames l m fs c) = currentSplatMesh c"
  by (induction fs arbitrary: c) (simp_all add: frustumCullObserver_def frustumCullStep_bails)

lemma consumedResults_empty: "consumedResults l m fs c = []"
proof (induction fs arbitrary: c)
  case Nil
  show ?case by simp
next
  case (Cons f fs)
  have "decided (fst (frustumCullStep l m (fst f) (snd f) c)) = None"
    by (rule frustumCullStep_bails)
  then show ?case using Cons.IH
    by (cases "fst (frustumCullStep l m (fst f) (snd f) c)") (simp_all add: decided_def)
qed

text \<open>
  The body behind the guard does what the specification says: when it reaches a decision
  \<open>v\<close>, the cached value becomes \<open>v\<close> and the flag is written exactly when \<open>v\<close> differs
  from the cached value; without bounding information it shows the mesh.
\<close>

lemma lookupBounding_frame:
  "lookupBounding mesh c = Some (sp, m1, c2) \<Longrightarrow>
     lastVisibilityState c2 = lastVisibilityState c \<and> visibilityWrites c2 = visibilityWrites c"
  by (auto simp: lookupBounding_def Let_def split: option.splits)

lemma frustumCullBody_effect:
  "(case decided (fst (frustumCullBody f mesh c)) of
      Some v \<Rightarrow>
        lastVisibilityState (snd (frustumCullBody f mesh c)) = v \<and>
        visibilityWrites (snd (frustumCullBody f mesh c)) =
          visibilityWrites c @ (if v \<noteq> lastVisibilityState c then [v] else [])
    | None \<Rightarrow> False)"
  by (auto simp: frustumCullBody_def Let_def decided_def setVisible_def
      split: option.splits dest: lookupBounding_frame)

lemma frustumCullBody_fails_open:
  assumes "currentSplatMesh c = Some mesh" and "lookupBounding mesh c = None"
    and "cacheCoherent c"
  shows "meshVisible (snd (frustumCullBody f mesh c))"
  using assms
  by (simp add: frustumCullBody_def meshVisible_def setVisible_def cacheCoherent_def)

lemma joystickWorld_reads:
  "checkInterval False False joystickWorld = 5"
  by (simp add: checkInterval_def joystickWorld_def bootWorld_def)



section \<open>The claims\<close>

subsection \<open>C1: a manual preset and the pending timer\<close>

text \<open>
  C1. Claim: from every state in Dynamic mode with an increase timer pending, applying a
  manual preset cancels the timer, so that after the original delay has elapsed the stored
  ratio is still the preset's value.

  The source does not behave so. From the start-up state, Dynamic mode is entered at rest
  and one frame schedules timer 1. \<open>applyPixelRatioPreset('LOW')\<close> then stores 0.35, but
  \<open>deactivateDynamicResolution\<close> increments \<open>drsFrameCounter\<close> to 1 and returns at its
  interval test: the mode stays Dynamic and the timer stays scheduled. When timer 1 fires
  it applies the high target, and the stored ratio is 0.75. The same happens on every call
  whose incremented counter is not a multiple of five
  (\<open>applyPixelRatioPreset_skips_deactivation\<close>).
\<close>

theorem applyPixelRatioPreset_leaves_timer_live:
  "isDynamicResolutionActive (drs_run [ActivateDynamic, Frame] bootWorld) \<and>
   movementTimeoutId (drs_run [ActivateDynamic, Frame] bootWorld) = Some 1 \<and>
   pendingTimers (drs_run [ActivateDynamic, Frame] bootWorld) = [1] \<and>
   window_currentPixelRatio (drs_run [ActivateDynamic, Frame, ApplyPreset ''LOW''] bootWorld)
     = js_lit 0.35 \<and>
   isDynamicResolutionActive (drs_run [ActivateDynamic, Frame, ApplyPreset ''LOW''] bootWorld) \<and>
   pendingTimers (drs_run [ActivateDynamic, Frame, ApplyPreset ''LOW''] bootWorld) = [1] \<and>
   window_currentPixelRatio
     (drs_run [ActivateDynamic, Frame, ApplyPreset ''LOW'', TimerFires 1] bootWorld) = js_lit 0.75"
  by (simp add: drs_defs sample_defs)

subsection \<open>C2: the initial mode\<close>

text \<open>
  C2. Claim: \<open>initWithDefaults\<close> always chooses a manual preset; after it Dynamic mode is
  inactive and the default manual preset is recorded, on mobile and on desktop.

  The source initialises \<open>initialModeIsDynamic\<close> to \<open>true\<close> and so takes the dynamic
  branch: from the start-up state, on either kind of device, Dynamic mode is active
  afterwards and no manual preset is recorded. Dynamic mode is active afterwards from every
  state (\<open>initWithDefaults_always_dynamic\<close>).
\<close>

theorem initWithDefaults_enters_dynamic:
  "isDynamicResolutionActive (initWithDefaults False bootWorld) \<and>
   currentPixelRatioPreset (initWithDefaults False bootWorld) = None \<and>
   window_currentPixelRatio (initWithDefaults False bootWorld) = js_lit 1.0 \<and>
   isDynamicResolutionActive (initWithDefaults True bootWorld) \<and>
   currentPixelRatioPreset (initWithDefaults True bootWorld) = None"
  by (simp add: drs_defs sample_defs)

subsection \<open>C3: the applier clamps\<close>

text \<open>
  C3, as amended. For every numeric argument \<open>r\<close> other than NaN, the clamped value
  \<open>clamp(r, 0.1, 1.5)\<close> lies in [0.1, 1.5], and \<open>setPixelRatio(r)\<close> leaves the stored ratio
  equal to it unless the source's test \<open>Math.abs(stored - clamped) < 0.01\<close>, evaluated in
  double arithmetic, succeeds; in that case the stored ratio is left as it was.
\<close>

theorem setPixelRatio_clamps_unless_close:
  assumes "r \<noteq> NaN"
  shows "ratioInBounds (clamp r (js_lit 0.1) (js_lit 1.5)) \<and>
         window_currentPixelRatio (setPixelRatio (Number r) s) =
           (if withinEpsilon (window_currentPixelRatio s) (clamp r (js_lit 0.1) (js_lit 1.5))
            then window_currentPixelRatio s
            else clamp r (js_lit 0.1) (js_lit 1.5))"
  using assms clamp_in_bounds [of r] setPixelRatio_stored [of r s]
  by (simp add: appliedRatio_def Let_def)

text \<open>
  At the start-up ratio 0.5, \<open>setPixelRatio(2.0)\<close> stores 1.5. At the stored ratio 0.35,
  \<open>setPixelRatio(0.34)\<close> changes nothing: the difference of the two doubles is below the
  double 0.01.
\<close>

theorem setPixelRatio_clamps_unless_close_witness:
  "js_lit 2.0 \<noteq> NaN \<and>
   window_currentPixelRatio (setPixelRatio (Number (js_lit 2.0)) bootWorld) = js_lit 1.5 \<and>
   js_lit 0.34 \<noteq> NaN \<and>
   withinEpsilon (js_lit 0.35) (js_lit 0.34) \<and>
   window_currentPixelRatio (setPixelRatio (Number (js_lit 0.34)) lowRatioWorld) = js_lit 0.35"
  using setPixelRatio_clamps_unless_close [of "js_lit 2.0" bootWorld]
    setPixelRatio_clamps_unless_close [of "js_lit 0.34" lowRatioWorld]
  by (simp add: drs_defs sample_defs withinEpsilon_def)

text \<open>
  The claim as stated fails: at the stored ratio 0.5, \<open>setPixelRatio(0.505)\<close> changes
  nothing, and the stored ratio is not \<open>clamp(0.505, 0.1, 1.5) = 0.505\<close>.
\<close>

theorem setPixelRatio_not_always_clamped:
  "window_currentPixelRatio (setPixelRatio (Number (js_lit 0.505)) bootWorld)
     \<noteq> clamp (js_lit 0.505) (js_lit 0.1) (js_lit 1.5)"
  by (simp add: drs_defs sample_defs clamp_def)

subsection \<open>C4: the stale timer\<close>

text \<open>
  C4. When the timer fires while Dynamic mode is not active, its callback does not apply
  the high target: the stored pixel ratio and the engine are unchanged, the mode stays
  Manual, and the callback only resets \<open>isConsideredMoving\<close> and \<open>movementTimeoutId\<close>.
\<close>

theorem stale_timer_keeps_ratio:
  assumes "\<not> isDynamicResolutionActive s"
  shows "window_currentPixelRatio (fireTimer t s) = window_currentPixelRatio s \<and>
         engine (fireTimer t s) = engine s \<and>
         \<not> isDynamicResolutionActive (fireTimer t s) \<and>
         movementTimeoutCallback s = s\<lparr>isConsideredMoving := False, movementTimeoutId := None\<rparr>"
  using assms by (simp add: fireTimer_def movementTimeoutCallback_def)

theorem stale_timer_keeps_ratio_witness:
  "\<not> isDynamicResolutionActive staleTimerWorld \<and>
   1 \<in> set (pendingTimers staleTimerWorld) \<and>
   pendingTimers (fireTimer 1 staleTimerWorld) = [] \<and>
   window_currentPixelRatio (fireTimer 1 staleTimerWorld) = js_lit 0.35"
  using stale_timer_keeps_ratio [of staleTimerWorld 1]
  by (simp add: staleTimerWorld_def bootWorld_def fireTimer_def movementTimeoutCallback_def)

subsection \<open>C5: when the snapshot is refreshed\<close>

text \<open>
  C5, as amended. With the camera and the engine available: a call of \<open>hasCameraMoved\<close>
  that finds no snapshot sets it to the current camera pose. Otherwise a call with
  \<open>forceCheck = true\<close> leaves the snapshot unchanged, and a call with \<open>forceCheck = false\<close>
  refreshes it to the current pose if Dynamic mode is active or movement was detected on
  that call, and leaves it unchanged if not.
\<close>

theorem hasCameraMoved_snapshot_policy:
  assumes "camera s = Some cam" and "\<not> engineGone s"
  shows "snapshot (snd (hasCameraMoved forceCheck s)) =
     (if lastCameraPosition s = None \<or> lastCameraRotationQ s = None then cameraPose cam
      else if forceCheck then snapshot s
      else if isDynamicResolutionActive s \<or> fst (hasCameraMoved forceCheck s) then cameraPose cam
      else snapshot s)"
proof (cases "lastCameraPosition s = None \<or> lastCameraRotationQ s = None")
  case True
  have "snapshot (snd (hasCameraMoved forceCheck s)) = cameraPose cam"
    unfolding hasCameraMoved_uninitialised [OF assms True]
    by (simp add: compare_snapshot) (simp add: snapshot_def cameraPose_def)
  then show ?thesis using True by simp
next
  case False
  then obtain lp lq where l: "lastCameraPosition s = Some lp" "lastCameraRotationQ s = Some lq"
    by auto
  show ?thesis
    unfolding hasCameraMoved_initialised [OF assms l]
    using l by (simp add: compare_snapshot compare_fst)
qed

text \<open>
  In Manual mode with the camera one unit away from the snapshot: the forced call reports
  movement and keeps the snapshot, the unforced call reports movement and refreshes it.
\<close>

theorem hasCameraMoved_snapshot_policy_witness:
  "camera movedWorld = Some (cameraAt farAway) \<and> \<not> engineGone movedWorld \<and>
   fst (hasCameraMoved True movedWorld) \<and>
   snapshot (snd (hasCameraMoved True movedWorld)) = snapshot movedWorld \<and>
   snapshot (snd (hasCameraMoved False movedWorld)) = cameraPose (cameraAt farAway)"
  using hasCameraMoved_snapshot_policy [of movedWorld "cameraAt farAway" True]
    hasCameraMoved_snapshot_policy [of movedWorld "cameraAt farAway" False]
  by (simp add: drs_defs sample_defs snapshot_def cameraPose_def)

text \<open>
  The claim as stated fails: the call with \<open>forceCheck = true\<close> does not refresh the
  snapshot to the current camera pose.
\<close>

theorem forced_check_keeps_snapshot:
  "snapshot (snd (hasCameraMoved True movedWorld)) \<noteq> cameraPose (cameraAt farAway)"
  by (simp add: drs_defs sample_defs snapshot_def cameraPose_def)

subsection \<open>C6: entering Dynamic mode\<close>




subsection \<open>C7: the bounds of the stored ratio\<close>

text \<open>
  C7. Claim: from the initial ratio 0.5, after any finite sequence of calls of the applier
  with arbitrary numeric arguments, the stored ratio is within [0.1, 1.5].

  The source misses one number. NaN is neither below 0.1 nor above 1.5, so it is not
  clamped; its distance to the stored ratio is not below 0.01, so it is stored. After the
  single call \<open>setPixelRatio(NaN)\<close> the stored ratio is NaN, which is not within the bounds.
  For arguments other than NaN the bounds are kept
  (\<open>setPixelRatio_sequence_keeps_bounds\<close>).
\<close>

theorem setPixelRatio_stores_NaN:
  "window_currentPixelRatio bootWorld = js_lit 0.5 \<and>
   window_currentPixelRatio (fold setPixelRatio [Number NaN] bootWorld) = NaN \<and>
   \<not> ratioInBounds (window_currentPixelRatio (fold setPixelRatio [Number NaN] bootWorld))"
  by (simp add: setPixelRatio_def bootWorld_def js_gt_def ratioInBounds_def dbl_eval)

subsection \<open>C8: visibility writes\<close>

text \<open>
  C8. Claim: the culler writes the visibility flag exactly on the value transitions of the
  frustum results it consumes on check frames; feeding true, true, false, false, true
  yields exactly two writes.

  The source never gets that far. Its guard \<open>!currentSplatMesh || !camera ||
  camera.isDisposed\<close> reads the method \<open>isDisposed\<close> of the camera without calling it, so
  the guard holds on every frame and the observer returns before the lookup, the frustum
  test and the write. Feeding the five results to a culler whose cached value is true,
  where they hold two transitions, the frames that pass the interval gate bail out at the
  guard; no result is consumed and the flag is never written. The body behind the guard
  would write on transitions (\<open>frustumCullBody_effect\<close>).
\<close>

theorem visibility_never_written:
  "transitions (lastVisibilityState (bootCuller splatMesh)) [True, True, False, False, True] = 2 \<and>
   fst (frustumCullStep False False (\<lambda>_. False) joystickWorld
         ((bootCuller splatMesh)\<lparr>frustumCheckCount := 14\<rparr>)) = Bailed \<and>
   consumedResults False False (feed [True, True, False, False, True]) (bootCuller splatMesh) = [] \<and>
   visibilityWrites
     (cullFrames False False (feed [True, True, False, False, True]) (bootCuller splatMesh)) = []"
  by (simp add: cullFrames_never_writes consumedResults_empty bootCuller_def
      frustumCullStep_def Let_def joystickWorld_reads cameraGone_always)

subsection \<open>C9: no bounding information\<close>


subsection \<open>C10: the culler's interval and the movement flag\<close>

text \<open>
  C10. After any sequence of events of a session that starts with no
  \<open>isConsideredMoving\<close> property on \<open>window\<close>, on a frame where the joystick is inactive
  the culler uses the stationary interval of its tier (60, 45 or 30 frames), whatever the
  controller's own \<open>isConsideredMoving\<close> flag says.
\<close>

theorem checkInterval_ignores_drs_movement:
  assumes "window_isConsideredMoving s = None"
    and "\<not> window_joystickActive (drs_run es s)"
  shows "checkInterval isLowEndDevice isMobile (drs_run es s) =
           (if isLowEndDevice then 60 else if isMobile then 45 else 30)"
  using assms by (simp add: checkInterval_def drs_run_window truthy_def)

text \<open>
  Dynamic mode, the camera moves, a frame runs: the controller considers the camera
  moving, and the culler of a desktop still waits 30 frames.
\<close>

theorem checkInterval_ignores_drs_movement_witness:
  "window_isConsideredMoving bootWorld = None \<and>
   \<not> window_joystickActive
       (drs_run [ActivateDynamic, CameraMoves (cameraAt farAway), Frame] bootWorld) \<and>
   isConsideredMoving (drs_run [ActivateDynamic, CameraMoves (cameraAt farAway), Frame] bootWorld) \<and>
   checkInterval False False
     (drs_run [ActivateDynamic, CameraMoves (cameraAt farAway), Frame] bootWorld) = 30"
  using checkInterval_ignores_drs_movement
    [of bootWorld "[ActivateDynamic, CameraMoves (cameraAt farAway), Frame]" False False]
  by (simp add: drs_defs sample_defs)

end
